theory Spec2Isabelle
  imports Complex_Main
begin

text \<open>
  A model of \<^verbatim>\<open>src/data/hhh_graph.py\<close>: the event filter and the graph builder of
  \<^verbatim>\<open>HHHGraph.process\<close>, with \<^verbatim>\<open>get_n_features\<close>, \<^verbatim>\<open>get_edge_index\<close> and
  \<^verbatim>\<open>compute_edge_features\<close>. The columnar arrays of the source are lists of rows, one
  row per event; reading the file, collating and saving are outside the model.
\<close>

section \<open>Module constants\<close>

text \<open>The constants of \<^verbatim>\<open>src/data/hhh_graph.py\<close>, lines 16-19.\<close>

definition N_JETS :: nat where
  "N_JETS = 10"

definition MIN_JET_PT :: real where
  "MIN_JET_PT = 20"

definition MIN_JETS :: nat where
  "MIN_JETS = 6"

definition N_HIGGS :: nat where
  "N_HIGGS = 3"

section \<open>Numbers\<close>

text \<open>
  The values read from the file (pt, eta, phi, b-tag score) are real numbers here and the
  integer branches are \<open>int\<close>. The source only compares and selects them (lines 48, 58,
  71, 120, 140, 142), which is exact. What it computes from them in floating-point
  arithmetic (lines 59-68 and 156) is not evaluated in this model: such a quantity is
  the expression that the source computes, a \<open>float_expr\<close> below.
\<close>

section \<open>The events of the input file\<close>

text \<open>
  One event of the tree. The branch \<^verbatim>\<open>jet{i}Pt\<close> of the event \<open>ev\<close> is
  \<open>jetPt ev i\<close>, and so on for the other branch templates of lines 20-21 and 107-109;
  \<^verbatim>\<open>events[name.format(i=i)]\<close> is the column of these values over all events.
\<close>

record event =
  jetPt :: "nat \<Rightarrow> real"
  jetEta :: "nat \<Rightarrow> real"
  jetPhi :: "nat \<Rightarrow> real"
  jetDeepFlavB :: "nat \<Rightarrow> real"
  jetJetId :: "nat \<Rightarrow> int"
  jetHiggsMatchedIndex :: "nat \<Rightarrow> int"
  jetHadronFlavour :: "nat \<Rightarrow> int"
  genHiggsPt :: "nat \<Rightarrow> real"
  genHiggsEta :: "nat \<Rightarrow> real"
  genHiggsPhi :: "nat \<Rightarrow> real"

text \<open>
  \<^verbatim>\<open>get_n_features(name, events, n)\<close>: the columns \<open>1..n\<close> of a branch template,
  concatenated along the last axis: one row of \<open>n\<close> values per event.
\<close>

definition get_n_features :: "(event \<Rightarrow> nat \<Rightarrow> 'a) \<Rightarrow> event list \<Rightarrow> nat \<Rightarrow> 'a list list" where
  "get_n_features name events n = map (\<lambda>ev. map (\<lambda>i. name ev i) [1..<n + 1]) events"

section \<open>Array operations\<close>

text \<open>
  A jagged array is a list of rows, one per event. \<open>jagged_mask\<close> is the indexing
  \<^verbatim>\<open>array[mask]\<close> by a jagged boolean array of the same shape (mask the entries of
  each row), \<open>row_mask\<close> the indexing by a flat boolean array (mask whole rows).
\<close>

definition mask_list :: "'a list \<Rightarrow> bool list \<Rightarrow> 'a list" where
  "mask_list xs ms = map fst (filter snd (zip xs ms))"

definition jagged_mask :: "'a list list \<Rightarrow> bool list list \<Rightarrow> 'a list list" where
  "jagged_mask arr msk = map (\<lambda>(row, m). mask_list row m) (zip arr msk)"

definition row_mask :: "'a list list \<Rightarrow> bool list \<Rightarrow> 'a list list" where
  "row_mask arr msk = mask_list arr msk"

definition ak_num :: "'a list list \<Rightarrow> nat list" where
  "ak_num arr = map length arr"

text \<open>\<^verbatim>\<open>ak.where(condition, x, y)\<close> with a scalar \<open>y\<close>, element by element.\<close>

definition ak_where :: "bool list list \<Rightarrow> 'a list list \<Rightarrow> 'a \<Rightarrow> 'a list list" where
  "ak_where condition xs y =
     map (\<lambda>(cs, row). map (\<lambda>(c, v). if c then v else y) (zip cs row)) (zip condition xs)"

definition ak_zeros_like :: "real list list \<Rightarrow> real list list" where
  "ak_zeros_like arr = map (map (\<lambda>_. 0)) arr"

text \<open>
  \<^verbatim>\<open>ak.cartesian\<close> and \<^verbatim>\<open>ak.argcartesian\<close> of an array with itself: per event, all
  pairs of entries (of positions), the first component varying slowest.
\<close>

definition ak_cartesian :: "'a list list \<Rightarrow> ('a \<times> 'a) list list" where
  "ak_cartesian arr = map (\<lambda>row. List.product row row) arr"

definition ak_argcartesian :: "'a list list \<Rightarrow> (nat \<times> nat) list list" where
  "ak_argcartesian arr = map (\<lambda>row. List.product [0..<length row] [0..<length row]) arr"

text \<open>\<^verbatim>\<open>np.stack(columns, axis=-1)\<close>: row \<open>r\<close> holds entry \<open>r\<close> of every column.\<close>

definition np_stack_last :: "'a list list \<Rightarrow> 'a list list" where
  "np_stack_last cols =
     (case cols of [] \<Rightarrow> []
      | c # _ \<Rightarrow> map (\<lambda>r. map (\<lambda>col. col ! r) cols) [0..<length c])"

section \<open>Edge indices\<close>

text \<open>
  \<^verbatim>\<open>get_edge_index\<close> (lines 29-36): both directions, the pairs whose two positions
  are equal masked out.
\<close>

definition get_edge_index :: "'a list list \<Rightarrow> (nat \<times> nat) list list" where
  "get_edge_index arr =
     (let edge_index = ak_argcartesian arr;
          mask_self_loops = map (map (\<lambda>(one_index, two_index). one_index \<noteq> two_index)) edge_index
      in jagged_mask edge_index mask_self_loops)"

section \<open>Four-vectors\<close>

text \<open>
  The records zipped at lines 40-42: a massless four-vector in \<open>(pt, eta, phi, mass)\<close>
  coordinates that also carries the jet's match index.
\<close>

record Momentum4D =
  j_pt :: real
  j_eta :: real
  j_phi :: real
  j_mass :: real
  j_higgs_idx :: int

text \<open>
  The records carry no position, so \<open>==\<close> on two of them (line 48) compares values:
  the \<^verbatim>\<open>vector\<close> package registers it for records of this name as the equality of
  the four coordinates (the extra field \<open>higgs_idx\<close> is not a coordinate).
\<close>

definition vec_equal :: "Momentum4D \<Rightarrow> Momentum4D \<Rightarrow> bool" where
  "vec_equal a b \<longleftrightarrow>
     j_pt a = j_pt b \<and> j_phi a = j_phi b \<and> j_eta a = j_eta b \<and> j_mass a = j_mass b"

text \<open>
  The floating-point quantities of the source, as expressions: a number read from the
  file, an integer stacked among floats, \<^verbatim>\<open>np.log\<close>, \<open>+\<close> and \<open>/\<close> on floats, and,
  from the \<^verbatim>\<open>vector\<close> package, \<^verbatim>\<open>deltaR\<close> of two vectors and \<^verbatim>\<open>mass2\<close>, \<^verbatim>\<open>pt\<close>,
  \<^verbatim>\<open>eta\<close> and \<^verbatim>\<open>phi\<close> of the sum of two vectors.
\<close>

datatype vec_expr = VecAdd Momentum4D Momentum4D

datatype float_expr =
    Num real
  | OfInt int
  | Log float_expr
  | Add float_expr float_expr
  | Div float_expr float_expr
  | DeltaR Momentum4D Momentum4D
  | Mass2 vec_expr
  | Pt vec_expr
  | Eta vec_expr
  | Phi vec_expr

section \<open>Edge features and edge targets\<close>

text \<open>
  The quantities of lines 58-71 for one pair \<open>(j0, j1)\<close> of jets; the source computes
  them for all pairs of all events at once, element by element.
\<close>

definition pair_min_pt :: "Momentum4D \<Rightarrow> Momentum4D \<Rightarrow> real" where
  "pair_min_pt j0 j1 = (if j_pt j0 < j_pt j1 then j_pt j0 else j_pt j1)"

definition pair_sum_pt :: "Momentum4D \<Rightarrow> Momentum4D \<Rightarrow> float_expr" where
  "pair_sum_pt j0 j1 = Add (Num (j_pt j0)) (Num (j_pt j1))"

definition pair_log_delta_r :: "Momentum4D \<Rightarrow> Momentum4D \<Rightarrow> float_expr" where
  "pair_log_delta_r j0 j1 = Log (DeltaR j0 j1)"

definition pair_log_mass2 :: "Momentum4D \<Rightarrow> Momentum4D \<Rightarrow> float_expr" where
  "pair_log_mass2 j0 j1 = Log (Mass2 (VecAdd j0 j1))"

definition pair_log_kt :: "Momentum4D \<Rightarrow> Momentum4D \<Rightarrow> float_expr" where
  "pair_log_kt j0 j1 = Add (Log (Num (pair_min_pt j0 j1))) (pair_log_delta_r j0 j1)"

definition pair_log_z :: "Momentum4D \<Rightarrow> Momentum4D \<Rightarrow> float_expr" where
  "pair_log_z j0 j1 = Log (Div (Num (pair_min_pt j0 j1)) (pair_sum_pt j0 j1))"

definition pair_log_pt_jj :: "Momentum4D \<Rightarrow> Momentum4D \<Rightarrow> float_expr" where
  "pair_log_pt_jj j0 j1 = Log (Pt (VecAdd j0 j1))"

definition pair_eta_jj :: "Momentum4D \<Rightarrow> Momentum4D \<Rightarrow> float_expr" where
  "pair_eta_jj j0 j1 = Eta (VecAdd j0 j1)"

definition pair_phi_jj :: "Momentum4D \<Rightarrow> Momentum4D \<Rightarrow> float_expr" where
  "pair_phi_jj j0 j1 = Phi (VecAdd j0 j1)"

text \<open>
  Line 71: \<^verbatim>\<open>ak.where(j0.higgs_idx > 0, j0.higgs_idx == j1.higgs_idx, 0)\<close>, the boolean
  read as 0 or 1.
\<close>

definition pair_edge_match :: "Momentum4D \<Rightarrow> Momentum4D \<Rightarrow> int" where
  "pair_edge_match j0 j1 =
     (if 0 < j_higgs_idx j0 then (if j_higgs_idx j0 = j_higgs_idx j1 then 1 else 0) else 0)"

text \<open>\<^verbatim>\<open>ak.zip\<close> of the five jet arrays into one array of records (lines 40-42).\<close>

definition zip_jets ::
  "real list list \<Rightarrow> real list list \<Rightarrow> real list list \<Rightarrow> real list list \<Rightarrow> int list list
   \<Rightarrow> Momentum4D list list" where
  "zip_jets pts etas phis masses idxs =
     map (\<lambda>(ps, es, fs, ms, hs).
            map (\<lambda>(p, e, f, m, h). \<lparr>j_pt = p, j_eta = e, j_phi = f, j_mass = m, j_higgs_idx = h\<rparr>)
              (zip ps (zip es (zip fs (zip ms hs)))))
       (zip pts (zip etas (zip phis (zip masses idxs))))"

record edge_features =
  log_delta_r :: "float_expr list list"
  log_mass2 :: "float_expr list list"
  log_kt :: "float_expr list list"
  log_z :: "float_expr list list"
  log_pt_jj :: "float_expr list list"
  eta_jj :: "float_expr list list"
  phi_jj :: "float_expr list list"
  edge_match :: "int list list"

text \<open>
  The pairs of jets of every event with the self loops masked out (lines 47-49). The
  mask compares the two records of a pair with \<open>==\<close>, that is, by their coordinates.
\<close>

definition jet_pairs :: "Momentum4D list list \<Rightarrow> (Momentum4D \<times> Momentum4D) list list" where
  "jet_pairs jets =
     (let pairs = ak_cartesian jets;
          mask_self_loops = map (map (\<lambda>(j0, j1). \<not> vec_equal j0 j1)) pairs
      in jagged_mask pairs mask_self_loops)"

text \<open>An element-by-element operation on the two fields of an array of pairs.\<close>

definition each_pair ::
  "(Momentum4D \<Rightarrow> Momentum4D \<Rightarrow> 'a) \<Rightarrow> (Momentum4D \<times> Momentum4D) list list \<Rightarrow> 'a list list" where
  "each_pair f pairs = map (map (\<lambda>(j0, j1). f j0 j1)) pairs"

text \<open>
  \<^verbatim>\<open>compute_edge_features\<close> (lines 39-72). The record array \<open>higgses\<close> of lines 52-55
  is built from the three parent arrays and not used.
\<close>

definition compute_edge_features ::
  "real list list \<Rightarrow> real list list \<Rightarrow> real list list \<Rightarrow> int list list
   \<Rightarrow> real list list \<Rightarrow> real list list \<Rightarrow> real list list \<Rightarrow> edge_features" where
  "compute_edge_features pt eta phi higgs_idx higgs_pt higgs_eta higgs_phi =
     (let jets = zip_jets pt eta phi (ak_zeros_like pt) higgs_idx;
          pairs = jet_pairs jets
      in \<lparr>log_delta_r = each_pair pair_log_delta_r pairs,
          log_mass2 = each_pair pair_log_mass2 pairs,
          log_kt = each_pair pair_log_kt pairs,
          log_z = each_pair pair_log_z pairs,
          log_pt_jj = each_pair pair_log_pt_jj pairs,
          eta_jj = each_pair pair_eta_jj pairs,
          phi_jj = each_pair pair_phi_jj pairs,
          edge_match = each_pair pair_edge_match pairs\<rparr>)"

section \<open>The arrays of \<open>process\<close>\<close>

text \<open>
  The ten local arrays of \<^verbatim>\<open>HHHGraph.process\<close> (lines 107-117), as one record, so that
  each block of the function is a function from such a record to the next.
\<close>

record arrays =
  higgs_pt :: "real list list"
  higgs_eta :: "real list list"
  higgs_phi :: "real list list"
  pt :: "real list list"
  eta :: "real list list"
  phi :: "real list list"
  btag :: "real list list"
  jet_id :: "int list list"
  higgs_idx :: "int list list"
  hadron_flavor :: "int list list"

text \<open>Lines 107-117.\<close>

definition read_arrays :: "event list \<Rightarrow> arrays" where
  "read_arrays events =
     \<lparr>higgs_pt = get_n_features genHiggsPt events N_HIGGS,
      higgs_eta = get_n_features genHiggsEta events N_HIGGS,
      higgs_phi = get_n_features genHiggsPhi events N_HIGGS,
      pt = get_n_features jetPt events N_JETS,
      eta = get_n_features jetEta events N_JETS,
      phi = get_n_features jetPhi events N_JETS,
      btag = get_n_features jetDeepFlavB events N_JETS,
      jet_id = get_n_features jetJetId events N_JETS,
      higgs_idx = get_n_features jetHiggsMatchedIndex events N_JETS,
      hadron_flavor = get_n_features jetHadronFlavour events N_JETS\<rparr>"

text \<open>Lines 119-127: remove jets below \<open>MIN_JET_PT\<close>.\<close>

definition remove_low_pt_jets :: "arrays \<Rightarrow> arrays" where
  "remove_low_pt_jets a =
     (let msk = map (map (\<lambda>p. MIN_JET_PT < p)) (pt a)
      in a\<lparr>pt := jagged_mask (pt a) msk,
           eta := jagged_mask (eta a) msk,
           phi := jagged_mask (phi a) msk,
           btag := jagged_mask (btag a) msk,
           jet_id := jagged_mask (jet_id a) msk,
           higgs_idx := jagged_mask (higgs_idx a) msk,
           hadron_flavor := jagged_mask (hadron_flavor a) msk\<rparr>)"

text \<open>Lines 129-137: keep events with \<open>MIN_JETS\<close> jets.\<close>

definition keep_min_jets_events :: "arrays \<Rightarrow> arrays" where
  "keep_min_jets_events a =
     (let msk = map (\<lambda>n. MIN_JETS \<le> n) (ak_num (pt a))
      in a\<lparr>pt := row_mask (pt a) msk,
           eta := row_mask (eta a) msk,
           phi := row_mask (phi a) msk,
           btag := row_mask (btag a) msk,
           jet_id := row_mask (jet_id a) msk,
           higgs_idx := row_mask (higgs_idx a) msk,
           hadron_flavor := row_mask (hadron_flavor a) msk\<rparr>)"

text \<open>Lines 139-140: switch -1 to 0.\<close>

definition switch_unmatched :: "arrays \<Rightarrow> arrays" where
  "switch_unmatched a =
     a\<lparr>higgs_idx := ak_where (map (map (\<lambda>h. - 1 < h)) (higgs_idx a)) (higgs_idx a) 0\<rparr>"

text \<open>Lines 141-142: require \<open>hadron_flavor == 5\<close>.\<close>

definition require_b_flavor :: "arrays \<Rightarrow> arrays" where
  "require_b_flavor a =
     a\<lparr>higgs_idx := ak_where (map (map (\<lambda>f. f = 5)) (hadron_flavor a)) (higgs_idx a) 0\<rparr>"

text \<open>Lines 119-142 together: the arrays as they reach line 144.\<close>

definition event_filter :: "arrays \<Rightarrow> arrays" where
  "event_filter a =
     require_b_flavor (switch_unmatched (keep_min_jets_events (remove_low_pt_jets a)))"

section \<open>Graph records\<close>

text \<open>
  The \<^verbatim>\<open>Data\<close> object of line 168. \<open>data_edge_index\<close> is the transposed tensor of
  line 164: the row of first positions and the row of second positions.
\<close>

record Data =
  data_x :: "float_expr list list"
  data_edge_attr :: "float_expr list list"
  data_edge_index :: "nat list \<times> nat list"
  data_y :: "int list"

text \<open>Lines 156-168: the record of event \<open>i\<close>.\<close>

definition make_data :: "arrays \<Rightarrow> (nat \<times> nat) list list \<Rightarrow> edge_features \<Rightarrow> nat \<Rightarrow> Data" where
  "make_data a edge_indices ef i =
     \<lparr>data_x = np_stack_last
        [map (\<lambda>p. Log (Num p)) (pt a ! i), map Num (eta a ! i), map Num (phi a ! i),
         map Num (btag a ! i), map OfInt (jet_id a ! i)],
      data_edge_attr = np_stack_last
        [log_delta_r ef ! i, log_mass2 ef ! i, log_kt ef ! i, log_z ef ! i,
         log_pt_jj ef ! i, eta_jj ef ! i, phi_jj ef ! i],
      data_edge_index = (map fst (edge_indices ! i), map snd (edge_indices ! i)),
      data_y = edge_match ef ! i\<rparr>"

text \<open>
  The loop of lines 151-169 over the event numbers, \<open>data_list\<close> being the list built
  so far: an event with fewer than \<open>MIN_JETS\<close> jets is skipped.
\<close>

fun event_loop ::
  "arrays \<Rightarrow> (nat \<times> nat) list list \<Rightarrow> edge_features \<Rightarrow> nat list \<Rightarrow> Data list \<Rightarrow> Data list" where
  "event_loop a edge_indices ef [] data_list = data_list"
| "event_loop a edge_indices ef (i # rest) data_list =
     (if length (pt a ! i) < MIN_JETS then event_loop a edge_indices ef rest data_list
      else event_loop a edge_indices ef rest (data_list @ [make_data a edge_indices ef i]))"

text \<open>
  \<^verbatim>\<open>HHHGraph.process\<close> (lines 97-175) for the events of the one raw file, up to the
  list that is collated and saved. \<open>pre_filter\<close> and \<open>pre_transform\<close> are the two
  optional hooks of the dataset (both \<open>None\<close> by default).
\<close>

definition process :: "(Data \<Rightarrow> bool) option \<Rightarrow> (Data \<Rightarrow> Data) option \<Rightarrow> event list \<Rightarrow> Data list" where
  "process pre_filter pre_transform events =
     (let a = event_filter (read_arrays events);
          edge_indices = get_edge_index (ak_zeros_like (pt a));
          ef = compute_edge_features (pt a) (eta a) (phi a) (higgs_idx a)
                 (higgs_pt a) (higgs_eta a) (higgs_phi a);
          n_events = length (pt a);
          data_list = event_loop a edge_indices ef [0..<n_events] [];
          data_list = (case pre_filter of None \<Rightarrow> data_list | Some f \<Rightarrow> filter f data_list);
          data_list = (case pre_transform of None \<Rightarrow> data_list | Some g \<Rightarrow> map g data_list)
      in data_list)"

section \<open>The same computation, event by event\<close>

text \<open>
  The arrays of \<open>process\<close> are columns over all events. The definitions of this section
  describe one event at a time; the lemmas below show that the columns hold exactly these
  values. \<open>surviving ev\<close> are the slot numbers of the jets of \<open>ev\<close> that pass the cut
  of line 120, in slot order, and \<open>kept\<close> are the events that pass line 130.
\<close>

definition surviving :: "event \<Rightarrow> nat list" where
  "surviving ev = filter (\<lambda>i. MIN_JET_PT < jetPt ev i) [1..<N_JETS + 1]"

definition kept :: "event list \<Rightarrow> event list" where
  "kept events = filter (\<lambda>ev. MIN_JETS \<le> length (surviving ev)) events"

definition jet_column :: "(event \<Rightarrow> nat \<Rightarrow> 'a) \<Rightarrow> event list \<Rightarrow> 'a list list" where
  "jet_column name events = map (\<lambda>ev. map (name ev) (surviving ev)) events"

text \<open>The match index of slot \<open>i\<close> after lines 140 and 142.\<close>

definition rewritten_idx :: "event \<Rightarrow> nat \<Rightarrow> int" where
  "rewritten_idx ev i =
     (if jetHadronFlavour ev i = 5
      then (if - 1 < jetHiggsMatchedIndex ev i then jetHiggsMatchedIndex ev i else 0)
      else 0)"

definition jet_of :: "event \<Rightarrow> nat \<Rightarrow> Momentum4D" where
  "jet_of ev i =
     \<lparr>j_pt = jetPt ev i, j_eta = jetEta ev i, j_phi = jetPhi ev i, j_mass = 0,
      j_higgs_idx = rewritten_idx ev i\<rparr>"

definition event_jets :: "event \<Rightarrow> Momentum4D list" where
  "event_jets ev = map (jet_of ev) (surviving ev)"

definition event_pairs :: "event \<Rightarrow> (Momentum4D \<times> Momentum4D) list" where
  "event_pairs ev =
     filter (\<lambda>(j0, j1). \<not> vec_equal j0 j1) (List.product (event_jets ev) (event_jets ev))"

definition event_edges :: "event \<Rightarrow> (nat \<times> nat) list" where
  "event_edges ev =
     filter (\<lambda>(i, j). i \<noteq> j)
       (List.product [0..<length (surviving ev)] [0..<length (surviving ev)])"

definition event_graph :: "event \<Rightarrow> Data" where
  "event_graph ev =
     \<lparr>data_x = map (\<lambda>i. [Log (Num (jetPt ev i)), Num (jetEta ev i), Num (jetPhi ev i),
                          Num (jetDeepFlavB ev i), OfInt (jetJetId ev i)]) (surviving ev),
      data_edge_attr = map (\<lambda>(j0, j1). [pair_log_delta_r j0 j1, pair_log_mass2 j0 j1,
                          pair_log_kt j0 j1, pair_log_z j0 j1, pair_log_pt_jj j0 j1,
                          pair_eta_jj j0 j1, pair_phi_jj j0 j1]) (event_pairs ev),
      data_edge_index = (map fst (event_edges ev), map snd (event_edges ev)),
      data_y = map (\<lambda>(j0, j1). pair_edge_match j0 j1) (event_pairs ev)\<rparr>"

text \<open>
  The array \<open>jets\<close> of line 40 as \<open>process\<close> builds it: the call of line 145 passes the
  filtered arrays.
\<close>

definition filtered_jets :: "event list \<Rightarrow> Momentum4D list list" where
  "filtered_jets events =
     (let a = event_filter (read_arrays events)
      in zip_jets (pt a) (eta a) (phi a) (ak_zeros_like (pt a)) (higgs_idx a))"

text \<open>The order of the pairs of positions: by the first position, then by the second.\<close>

definition row_major :: "nat \<times> nat \<Rightarrow> nat \<times> nat \<Rightarrow> bool" where
  "row_major e e' \<longleftrightarrow> fst e < fst e' \<or> (fst e = fst e' \<and> snd e < snd e')"

text \<open>
  The coordinates that the mask of line 48 compares, and the events none of whose
  surviving jets agree in all of them.
\<close>

definition coords :: "Momentum4D \<Rightarrow> real \<times> real \<times> real \<times> real" where
  "coords j = (j_pt j, j_phi j, j_eta j, j_mass j)"

definition distinct_jets :: "event \<Rightarrow> bool" where
  "distinct_jets ev \<longleftrightarrow> distinct (map coords (event_jets ev))"

section \<open>Example events\<close>

text \<open>
  \<open>ev_six\<close>: six jets above the cut with distinct directions, four padded slots; the
  jet of slot 4 has a match index and a hadron flavour other than 5.
  \<open>ev_few\<close>: five jets above the cut, the other five with pt exactly 20.
  \<open>ev_twin\<close>: six jets above the cut, matched in pairs to the parents 1, 2 and 3; the
  two jets of parent 1 (slots 1 and 2) have the same pt, eta and phi.
\<close>

definition ev_six :: event where
  "ev_six =
     \<lparr>jetPt = (\<lambda>i. if i \<le> 6 then 30 + real i else 0),
      jetEta = (\<lambda>i. real i),
      jetPhi = (\<lambda>i. 0),
      jetDeepFlavB = (\<lambda>i. 1 / 2),
      jetJetId = (\<lambda>i. 6),
      jetHiggsMatchedIndex =
        (\<lambda>i. if i \<le> 2 then 1 else if i \<le> 4 then 2 else if i \<le> 6 then 3 else - 1),
      jetHadronFlavour = (\<lambda>i. if i = 4 then 4 else 5),
      genHiggsPt = (\<lambda>i. 100), genHiggsEta = (\<lambda>i. 0), genHiggsPhi = (\<lambda>i. 0)\<rparr>"

definition ev_few :: event where
  "ev_few =
     \<lparr>jetPt = (\<lambda>i. if i \<le> 5 then 30 else 20),
      jetEta = (\<lambda>i. real i),
      jetPhi = (\<lambda>i. 0),
      jetDeepFlavB = (\<lambda>i. 1 / 2),
      jetJetId = (\<lambda>i. 6),
      jetHiggsMatchedIndex = (\<lambda>i. - 1),
      jetHadronFlavour = (\<lambda>i. 5),
      genHiggsPt = (\<lambda>i. 100), genHiggsEta = (\<lambda>i. 0), genHiggsPhi = (\<lambda>i. 0)\<rparr>"

definition ev_twin :: event where
  "ev_twin =
     \<lparr>jetPt = (\<lambda>i. if i \<le> 6 then 30 else 0),
      jetEta = (\<lambda>i. if i \<le> 2 then 0 else real i),
      jetPhi = (\<lambda>i. 0),
      jetDeepFlavB = (\<lambda>i. 1 / 2),
      jetJetId = (\<lambda>i. 6),
      jetHiggsMatchedIndex =
        (\<lambda>i. if i \<le> 2 then 1 else if i \<le> 4 then 2 else if i \<le> 6 then 3 else - 1),
      jetHadronFlavour = (\<lambda>i. 5),
      genHiggsPt = (\<lambda>i. 100), genHiggsEta = (\<lambda>i. 0), genHiggsPhi = (\<lambda>i. 0)\<rparr>"

section \<open>Masks and columns\<close>

lemma mask_list_self: "mask_list xs (map P xs) = filter P xs"
  by (induction xs) (auto simp: mask_list_def)

lemma mask_list_map: "mask_list (map f xs) (map P xs) = map f (filter P xs)"
  by (induction xs) (auto simp: mask_list_def)

lemma mask_list_map_comp:
  "mask_list (map f xs) (map (P \<circ> q) xs) = map f (filter (\<lambda>i. P (q i)) xs)"
  by (induction xs) (auto simp: mask_list_def)

lemma jagged_mask_self: "jagged_mask xss (map (map P) xss) = map (filter P) xss"
  by (induction xss) (simp_all add: jagged_mask_def mask_list_self)

lemma jagged_mask_cols:
  "jagged_mask (map (\<lambda>ev. map (name ev) (g ev)) events)
       (map (map P) (map (\<lambda>ev. map (q ev) (g ev)) events))
     = map (\<lambda>ev. map (name ev) (filter (\<lambda>i. P (q ev i)) (g ev))) events"
  by (induction events) (simp_all add: jagged_mask_def mask_list_map_comp)

lemma row_mask_map: "row_mask (map f es) (map P es) = map f (filter P es)"
  by (simp add: row_mask_def mask_list_map)

lemma ak_where_map:
  "ak_where (map (\<lambda>e. map (c e) (g e)) es) (map (\<lambda>e. map (f e) (g e)) es) y
     = map (\<lambda>e. map (\<lambda>i. if c e i then f e i else y) (g e)) es"
  by (induction es) (auto simp: ak_where_def zip_map_map zip_same_conv_map comp_def)

lemma mask_get_n_features:
  "jagged_mask (get_n_features name events N_JETS)
       (map (map (\<lambda>p. MIN_JET_PT < p)) (get_n_features jetPt events N_JETS))
     = jet_column name events"
  unfolding get_n_features_def jet_column_def surviving_def
  by (rule jagged_mask_cols)

lemma row_mask_jet_column:
  "row_mask (jet_column name events) (map (\<lambda>n. MIN_JETS \<le> n) (ak_num (jet_column jetPt events)))
     = jet_column name (kept events)"
proof -
  have "map (\<lambda>n. MIN_JETS \<le> n) (ak_num (jet_column jetPt events))
          = map (\<lambda>ev. MIN_JETS \<le> length (surviving ev)) events"
    by (simp add: ak_num_def jet_column_def comp_def)
  then show ?thesis
    unfolding jet_column_def kept_def
    using row_mask_map[of "\<lambda>ev. map (name ev) (surviving ev)" events
        "\<lambda>ev. MIN_JETS \<le> length (surviving ev)"]
    by simp
qed

section \<open>The blocks of the event filter\<close>

lemma remove_low_pt_jets_read:
  "remove_low_pt_jets (read_arrays events) =
     (read_arrays events)
       \<lparr>pt := jet_column jetPt events, eta := jet_column jetEta events,
        phi := jet_column jetPhi events, btag := jet_column jetDeepFlavB events,
        jet_id := jet_column jetJetId events,
        higgs_idx := jet_column jetHiggsMatchedIndex events,
        hadron_flavor := jet_column jetHadronFlavour events\<rparr>"
  unfolding remove_low_pt_jets_def Let_def
  by (simp add: read_arrays_def mask_get_n_features)

lemma keep_remove_read:
  "keep_min_jets_events (remove_low_pt_jets (read_arrays events)) =
     (read_arrays events)
       \<lparr>pt := jet_column jetPt (kept events), eta := jet_column jetEta (kept events),
        phi := jet_column jetPhi (kept events), btag := jet_column jetDeepFlavB (kept events),
        jet_id := jet_column jetJetId (kept events),
        higgs_idx := jet_column jetHiggsMatchedIndex (kept events),
        hadron_flavor := jet_column jetHadronFlavour (kept events)\<rparr>"
  unfolding keep_min_jets_events_def Let_def remove_low_pt_jets_read
  by (simp add: row_mask_jet_column)

lemma event_filter_read:
  "event_filter (read_arrays events) =
     (read_arrays events)
       \<lparr>pt := jet_column jetPt (kept events), eta := jet_column jetEta (kept events),
        phi := jet_column jetPhi (kept events), btag := jet_column jetDeepFlavB (kept events),
        jet_id := jet_column jetJetId (kept events),
        higgs_idx := jet_column rewritten_idx (kept events),
        hadron_flavor := jet_column jetHadronFlavour (kept events)\<rparr>"
  unfolding event_filter_def keep_remove_read require_b_flavor_def switch_unmatched_def
  apply (simp add: jet_column_def comp_def)
  using ak_where_map[of "\<lambda>ev i. - 1 < jetHiggsMatchedIndex ev i" surviving "kept events"
        jetHiggsMatchedIndex 0]
    ak_where_map[of "\<lambda>ev i. jetHadronFlavour ev i = 5" surviving "kept events"
        "\<lambda>ev i. if - 1 < jetHiggsMatchedIndex ev i then jetHiggsMatchedIndex ev i else 0" 0]
  apply (simp add: rewritten_idx_def)
  done

section \<open>The graph builder\<close>

lemma zip_jets_columns:
  "zip_jets (jet_column jetPt es) (jet_column jetEta es) (jet_column jetPhi es)
      (ak_zeros_like (jet_column jetPt es)) (jet_column rewritten_idx es)
     = map event_jets es"
  by (induction es)
     (simp_all add: zip_jets_def jet_column_def ak_zeros_like_def jet_of_def event_jets_def
        zip_map_map zip_same_conv_map comp_def)

lemma filtered_jets_eq: "filtered_jets events = map event_jets (kept events)"
  unfolding filtered_jets_def Let_def event_filter_read
  by (simp add: zip_jets_columns)

lemma jet_pairs_eq:
  "jet_pairs jets =
     map (\<lambda>row. filter (\<lambda>(j0, j1). \<not> vec_equal j0 j1) (List.product row row)) jets"
  unfolding jet_pairs_def Let_def jagged_mask_self
  by (simp add: ak_cartesian_def)

lemma get_edge_index_eq:
  "get_edge_index arr =
     map (\<lambda>row. filter (\<lambda>(i, j). i \<noteq> j) (List.product [0..<length row] [0..<length row])) arr"
  unfolding get_edge_index_def Let_def jagged_mask_self
  by (simp add: ak_argcartesian_def)

lemma event_loop_eq:
  "event_loop a ei ef idxs acc =
     acc @ map (make_data a ei ef) (filter (\<lambda>i. \<not> length (pt a ! i) < MIN_JETS) idxs)"
  by (induction idxs arbitrary: acc) simp_all

lemma np_stack_last_map:
  assumes "fs \<noteq> []"
  shows "np_stack_last (map (\<lambda>f. map f xs) fs) = map (\<lambda>v. map (\<lambda>f. f v) fs) xs"
proof -
  obtain f fs' where fs: "fs = f # fs'"
    using assms by (cases fs) auto
  have "np_stack_last (map (\<lambda>f. map f xs) fs)
          = map (\<lambda>r. map (\<lambda>col. col ! r) (map (\<lambda>f. map f xs) fs)) [0..<length xs]"
    by (simp add: np_stack_last_def fs)
  also have "\<dots> = map (\<lambda>r. map (\<lambda>f. f (xs ! r)) fs) [0..<length xs]"
    by (rule map_cong) simp_all
  also have "\<dots> = map (\<lambda>v. map (\<lambda>f. f v) fs) (map (\<lambda>r. xs ! r) [0..<length xs])"
    by (simp add: comp_def)
  also have "\<dots> = map (\<lambda>v. map (\<lambda>f. f v) fs) xs"
    by (simp only: map_nth)
  finally show ?thesis .
qed

lemma stack5:
  "np_stack_last [map f1 xs, map f2 xs, map f3 xs, map f4 xs, map f5 xs]
     = map (\<lambda>v. [f1 v, f2 v, f3 v, f4 v, f5 v]) xs"
  using np_stack_last_map[of "[f1, f2, f3, f4, f5]" xs] by simp

lemma stack7:
  "np_stack_last [map f1 xs, map f2 xs, map f3 xs, map f4 xs, map f5 xs, map f6 xs, map f7 xs]
     = map (\<lambda>v. [f1 v, f2 v, f3 v, f4 v, f5 v, f6 v, f7 v]) xs"
  using np_stack_last_map[of "[f1, f2, f3, f4, f5, f6, f7]" xs] by simp

lemma kept_min_jets: "ev \<in> set (kept events) \<Longrightarrow> MIN_JETS \<le> length (surviving ev)"
  by (simp add: kept_def)

lemma make_data_columns:
  assumes "i < length (kept events)"
  shows "make_data (event_filter (read_arrays events))
           (get_edge_index (ak_zeros_like (jet_column jetPt (kept events))))
           (compute_edge_features (jet_column jetPt (kept events)) (jet_column jetEta (kept events))
              (jet_column jetPhi (kept events)) (jet_column rewritten_idx (kept events)) hp he hf) i
         = event_graph (kept events ! i)"
  using assms
  unfolding make_data_def event_filter_read compute_edge_features_def Let_def
    zip_jets_columns jet_pairs_eq get_edge_index_eq
  by (simp add: jet_column_def each_pair_def ak_zeros_like_def event_graph_def comp_def
           event_pairs_def event_edges_def event_jets_def stack5 stack7 split_def)

lemma make_data_event_graph:
  assumes "i < length (kept events)" and "a = event_filter (read_arrays events)"
  shows "make_data a (get_edge_index (ak_zeros_like (pt a)))
           (compute_edge_features (pt a) (eta a) (phi a) (higgs_idx a)
              (higgs_pt a) (higgs_eta a) (higgs_phi a)) i
         = event_graph (kept events ! i)"
proof -
  have "pt a = jet_column jetPt (kept events)" "eta a = jet_column jetEta (kept events)"
    "phi a = jet_column jetPhi (kept events)"
    "higgs_idx a = jet_column rewritten_idx (kept events)"
    by (simp_all add: assms(2) event_filter_read)
  then show ?thesis
    using make_data_columns[OF assms(1)] by (simp add: assms(2))
qed

text \<open>
  No event that reaches the loop is skipped, and the list of records is the list of the
  graphs of the kept events, in their order.
\<close>

lemma loop_never_skips:
  assumes "i < length (kept events)"
  shows "\<not> length (pt (event_filter (read_arrays events)) ! i) < MIN_JETS"
proof -
  have "kept events ! i \<in> set (kept events)"
    using assms by simp
  from kept_min_jets[OF this] assms show ?thesis
    by (simp add: event_filter_read jet_column_def)
qed

lemma process_eq: "process None None events = map event_graph (kept events)"
proof -
  let ?a = "event_filter (read_arrays events)"
  let ?make = "make_data ?a (get_edge_index (ak_zeros_like (pt ?a)))
                 (compute_edge_features (pt ?a) (eta ?a) (phi ?a) (higgs_idx ?a)
                    (higgs_pt ?a) (higgs_eta ?a) (higgs_phi ?a))"
  have n: "length (pt ?a) = length (kept events)"
    by (simp add: event_filter_read jet_column_def)
  have keep: "filter (\<lambda>i. \<not> length (pt ?a ! i) < MIN_JETS) [0..<length (kept events)]
                = [0..<length (kept events)]"
  proof (rule filter_True)
    show "\<forall>i\<in>set [0..<length (kept events)]. \<not> length (pt ?a ! i) < MIN_JETS"
    proof
      fix i assume "i \<in> set [0..<length (kept events)]"
      then have "i < length (kept events)" by simp
      then show "\<not> length (pt ?a ! i) < MIN_JETS" by (rule loop_never_skips)
    qed
  qed
  have "process None None events = map ?make [0..<length (kept events)]"
    unfolding process_def Let_def event_loop_eq n keep by simp
  also have "\<dots> = map (\<lambda>i. event_graph (kept events ! i)) [0..<length (kept events)]"
  proof (rule map_cong[OF refl])
    fix i assume "i \<in> set [0..<length (kept events)]"
    then have "i < length (kept events)" by simp
    then show "?make i = event_graph (kept events ! i)"
      by (rule make_data_event_graph[OF _ refl])
  qed
  also have "\<dots> = map event_graph (map (\<lambda>i. kept events ! i) [0..<length (kept events)])"
    by (simp add: comp_def)
  also have "\<dots> = map event_graph (kept events)"
    by (simp only: map_nth)
  finally show ?thesis .
qed

section \<open>The example events, evaluated\<close>

lemma slots: "[1..<N_JETS + 1] = [1, 2, 3, 4, 5, 6, 7, 8, 9, 10]"
  unfolding N_JETS_def by (simp add: upt_rec)

lemma surviving_ev_six: "surviving ev_six = [1, 2, 3, 4, 5, 6]"
  unfolding surviving_def slots by (simp add: MIN_JET_PT_def ev_six_def)

lemma surviving_ev_few: "surviving ev_few = [1, 2, 3, 4, 5]"
  unfolding surviving_def slots by (simp add: MIN_JET_PT_def ev_few_def)

lemma surviving_ev_twin: "surviving ev_twin = [1, 2, 3, 4, 5, 6]"
  unfolding surviving_def slots by (simp add: MIN_JET_PT_def ev_twin_def)

lemma kept_six_few: "kept [ev_six, ev_few] = [ev_six]"
  by (simp add: kept_def surviving_ev_six surviving_ev_few MIN_JETS_def)

lemma kept_twin: "kept [ev_twin] = [ev_twin]"
  by (simp add: kept_def surviving_ev_twin MIN_JETS_def)

section \<open>The jets that survive the cut\<close>

lemma set_surviving:
  "i \<in> set (surviving ev) \<longleftrightarrow> 1 \<le> i \<and> i \<le> N_JETS \<and> MIN_JET_PT < jetPt ev i"
  by (auto simp: surviving_def)

lemma sorted_surviving: "sorted (surviving ev)"
  unfolding surviving_def by (rule sorted_wrt_filter) (rule sorted_upt)

lemma distinct_surviving: "distinct (surviving ev)"
  unfolding surviving_def by (rule distinct_filter) (rule distinct_upt)

text \<open>
  C4. After the block of lines 119-127 each of the seven jet arrays holds, for every
  event, the values of exactly the slots \<open>surviving ev\<close>, in slot order: the same slots in
  all seven arrays. Slot \<open>i\<close> of \<open>1..N_JETS\<close> is among them if and only if its pt is
  strictly greater than 20, so a jet with pt exactly 20 is removed.
\<close>

theorem C4_pt_mask:
  "(let a = remove_low_pt_jets (read_arrays events) in
      pt a = map (\<lambda>ev. map (jetPt ev) (surviving ev)) events \<and>
      eta a = map (\<lambda>ev. map (jetEta ev) (surviving ev)) events \<and>
      phi a = map (\<lambda>ev. map (jetPhi ev) (surviving ev)) events \<and>
      btag a = map (\<lambda>ev. map (jetDeepFlavB ev) (surviving ev)) events \<and>
      jet_id a = map (\<lambda>ev. map (jetJetId ev) (surviving ev)) events \<and>
      higgs_idx a = map (\<lambda>ev. map (jetHiggsMatchedIndex ev) (surviving ev)) events \<and>
      hadron_flavor a = map (\<lambda>ev. map (jetHadronFlavour ev) (surviving ev)) events)
   \<and> (i \<in> set (surviving ev) \<longleftrightarrow> 1 \<le> i \<and> i \<le> N_JETS \<and> 20 < jetPt ev i)
   \<and> distinct (surviving ev) \<and> sorted (surviving ev)"
  unfolding Let_def remove_low_pt_jets_read
  by (simp add: jet_column_def set_surviving MIN_JET_PT_def sorted_surviving distinct_surviving)

theorem C4_pt_mask_witness:
  "pt (remove_low_pt_jets (read_arrays [ev_few])) = [[30, 30, 30, 30, 30]]
   \<and> jetPt ev_few 6 = 20 \<and> 6 \<notin> set (surviving ev_few) \<and> 5 \<in> set (surviving ev_few)"
  using C4_pt_mask[of "[ev_few]" 6 ev_few] C4_pt_mask[of "[ev_few]" 5 ev_few]
  unfolding Let_def
  by (simp add: surviving_ev_few) (simp add: ev_few_def N_JETS_def)

section \<open>Which events give a record\<close>

lemma length_data_x_event_graph: "length (data_x (event_graph ev)) = length (surviving ev)"
  by (simp add: event_graph_def)

lemma pt_after_mask_lengths:
  "map length (pt (remove_low_pt_jets (read_arrays events))) = map (\<lambda>ev. length (surviving ev)) events"
  by (simp add: remove_low_pt_jets_read jet_column_def comp_def)

lemma filter_map_length:
  "filter P (map f xs) = map f (filter (\<lambda>x. P (f x)) xs)"
  by (induction xs) simp_all

text \<open>
  C5. The records of the output are, in order, those of the events that have at least
  \<open>MIN_JETS = 6\<close> jets after the pt mask: the numbers of nodes of the records are the jet
  counts of line 130 that are 6 or more, so an event with fewer jets gives no record and
  every record has at least 6 nodes. The test of line 152 is false for every event that
  reaches the loop.
\<close>

theorem C5_min_jets:
  "(let a1 = remove_low_pt_jets (read_arrays events);
        a = event_filter (read_arrays events);
        data_list = process None None events in
      map (\<lambda>d. length (data_x d)) data_list = filter (\<lambda>k. MIN_JETS \<le> k) (map length (pt a1)) \<and>
      length data_list = length (pt a) \<and>
      (\<forall>d \<in> set data_list. MIN_JETS \<le> length (data_x d)) \<and>
      (\<forall>i < length (pt a). \<not> length (pt a ! i) < MIN_JETS))
   \<and> MIN_JETS = 6"
proof -
  let ?a = "event_filter (read_arrays events)"
  have sizes: "map (\<lambda>d. length (data_x d)) (process None None events)
          = filter (\<lambda>k. MIN_JETS \<le> k) (map length (pt (remove_low_pt_jets (read_arrays events))))"
    unfolding process_eq pt_after_mask_lengths filter_map_length kept_def
    by (simp add: comp_def length_data_x_event_graph)
  have n: "length (pt ?a) = length (kept events)"
    by (simp add: event_filter_read jet_column_def)
  have len: "length (process None None events) = length (pt ?a)"
    by (simp add: process_eq n)
  have each: "\<forall>d \<in> set (process None None events). MIN_JETS \<le> length (data_x d)"
    unfolding process_eq by (auto simp: length_data_x_event_graph kept_min_jets)
  have never: "\<forall>i < length (pt ?a). \<not> length (pt ?a ! i) < MIN_JETS"
    using loop_never_skips by (simp add: n)
  show ?thesis
    unfolding Let_def using sizes len each never by (simp add: MIN_JETS_def)
qed

lemma x_six: "length (data_x (event_graph ev_six)) = 6"
  by (simp add: length_data_x_event_graph surviving_ev_six)

theorem C5_min_jets_witness:
  "map (\<lambda>d. length (data_x d)) (process None None [ev_six, ev_few]) = [6]
   \<and> map length (pt (remove_low_pt_jets (read_arrays [ev_six, ev_few]))) = [6, 5]
   \<and> length (pt (event_filter (read_arrays [ev_six, ev_few]))) = 1
   \<and> (\<exists>d \<in> set (process None None [ev_six, ev_few]). MIN_JETS \<le> length (data_x d))
   \<and> \<not> length (pt (event_filter (read_arrays [ev_six, ev_few])) ! 0) < MIN_JETS"
proof -
  have p: "process None None [ev_six, ev_few] = [event_graph ev_six]"
    by (simp add: process_eq kept_six_few)
  have m: "map length (pt (remove_low_pt_jets (read_arrays [ev_six, ev_few]))) = [6, 5]"
    by (simp add: pt_after_mask_lengths surviving_ev_six surviving_ev_few)
  from C5_min_jets[of "[ev_six, ev_few]"] show ?thesis
    unfolding Let_def m p by (force simp: MIN_JETS_def x_six)
qed

section \<open>The rewritten match index\<close>

lemma zip_columns:
  "map (\<lambda>(hs, fs). map (\<lambda>(h, f). F h f) (zip hs fs)) (zip (jet_column n1 es) (jet_column n2 es))
     = jet_column (\<lambda>ev i. F (n1 ev i) (n2 ev i)) es"
  by (induction es) (simp_all add: jet_column_def zip_map_map zip_same_conv_map comp_def)

lemma rewritten_idx_alt:
  "rewritten_idx ev i =
     (if jetHiggsMatchedIndex ev i \<le> - 1 \<or> jetHadronFlavour ev i \<noteq> 5 then 0
      else jetHiggsMatchedIndex ev i)"
  by (simp add: rewritten_idx_def)

text \<open>
  C6. Lines 140 and 142 together change the array of match indices only: every entry
  becomes 0 if it was \<open>\<le> -1\<close> or the hadron flavour of the same jet is not 5, and is
  left as it was otherwise. The two arrays have the same shape, so each match index is
  paired with the flavour of its own jet.
\<close>

theorem C6_match_index_rewrite:
  "(let a2 = keep_min_jets_events (remove_low_pt_jets (read_arrays events)) in
      require_b_flavor (switch_unmatched a2) =
        a2\<lparr>higgs_idx :=
             map (\<lambda>(hs, fs). map (\<lambda>(h, f). if h \<le> - 1 \<or> f \<noteq> 5 then 0 else h) (zip hs fs))
               (zip (higgs_idx a2) (hadron_flavor a2))\<rparr>
      \<and> map length (higgs_idx a2) = map length (hadron_flavor a2))"
proof -
  let ?a2 = "keep_min_jets_events (remove_low_pt_jets (read_arrays events))"
  have h: "higgs_idx ?a2 = jet_column jetHiggsMatchedIndex (kept events)"
    and f: "hadron_flavor ?a2 = jet_column jetHadronFlavour (kept events)"
    by (simp_all add: keep_remove_read)
  have "require_b_flavor (switch_unmatched ?a2) = event_filter (read_arrays events)"
    by (simp add: event_filter_def)
  also have "\<dots> = ?a2\<lparr>higgs_idx := jet_column rewritten_idx (kept events)\<rparr>"
    by (simp add: event_filter_read keep_remove_read)
  also have "jet_column rewritten_idx (kept events)
       = map (\<lambda>(hs, fs). map (\<lambda>(h, f). if h \<le> - 1 \<or> f \<noteq> 5 then 0 else h) (zip hs fs))
               (zip (higgs_idx ?a2) (hadron_flavor ?a2))"
    unfolding h f zip_columns
    by (simp add: jet_column_def rewritten_idx_alt)
  finally have main: "require_b_flavor (switch_unmatched ?a2) =
        ?a2\<lparr>higgs_idx :=
             map (\<lambda>(hs, fs). map (\<lambda>(h, f). if h \<le> - 1 \<or> f \<noteq> 5 then 0 else h) (zip hs fs))
               (zip (higgs_idx ?a2) (hadron_flavor ?a2))\<rparr>" .
  have "map length (higgs_idx ?a2) = map length (hadron_flavor ?a2)"
    unfolding h f by (simp add: jet_column_def comp_def)
  with main show ?thesis
    unfolding Let_def by blast
qed

lemma idx_six: "jet_column rewritten_idx [ev_six] = [[1, 1, 2, 0, 3, 3]]"
  unfolding jet_column_def by (simp add: surviving_ev_six) (simp add: rewritten_idx_def ev_six_def)

lemma raw_six:
  "jet_column jetHiggsMatchedIndex [ev_six] = [[1, 1, 2, 2, 3, 3]]"
  "jet_column jetHadronFlavour [ev_six] = [[5, 5, 5, 4, 5, 5]]"
  unfolding jet_column_def by (simp_all add: surviving_ev_six) (simp_all add: ev_six_def)

theorem C6_match_index_rewrite_witness:
  "higgs_idx (keep_min_jets_events (remove_low_pt_jets (read_arrays [ev_six, ev_few])))
     = [[1, 1, 2, 2, 3, 3]]
   \<and> hadron_flavor (keep_min_jets_events (remove_low_pt_jets (read_arrays [ev_six, ev_few])))
     = [[5, 5, 5, 4, 5, 5]]
   \<and> higgs_idx (require_b_flavor (switch_unmatched
         (keep_min_jets_events (remove_low_pt_jets (read_arrays [ev_six, ev_few])))))
     = [[1, 1, 2, 0, 3, 3]]"
proof -
  let ?a2 = "keep_min_jets_events (remove_low_pt_jets (read_arrays [ev_six, ev_few]))"
  have h: "higgs_idx ?a2 = [[1, 1, 2, 2, 3, 3]]" and f: "hadron_flavor ?a2 = [[5, 5, 5, 4, 5, 5]]"
    by (simp_all add: keep_remove_read kept_six_few raw_six)
  from C6_match_index_rewrite[of "[ev_six, ev_few]"]
  have "higgs_idx (require_b_flavor (switch_unmatched ?a2)) =
          map (\<lambda>(hs, fs). map (\<lambda>(h, f). if h \<le> - 1 \<or> f \<noteq> 5 then 0 else h) (zip hs fs))
               (zip (higgs_idx ?a2) (hadron_flavor ?a2))"
    unfolding Let_def by simp
  then show ?thesis
    unfolding h f by simp
qed

section \<open>The parent arrays\<close>

lemma get_n_features_lengths:
  "map length (get_n_features name events n) = replicate (length events) n"
  by (induction events) (simp_all add: get_n_features_def)

lemma event_filter_parents:
  "higgs_pt (event_filter a) = higgs_pt a"
  "higgs_eta (event_filter a) = higgs_eta a"
  "higgs_phi (event_filter a) = higgs_phi a"
  by (simp_all add: event_filter_def require_b_flavor_def switch_unmatched_def
        keep_min_jets_events_def remove_low_pt_jets_def Let_def)

lemma parents_unused:
  "compute_edge_features p e f h hp he hf = compute_edge_features p e f h hp' he' hf'"
  by (simp add: compute_edge_features_def)

text \<open>
  C7, as amended. The event mask of line 130 is applied to the seven jet arrays only;
  the three parent arrays are not filtered. The arrays that line 145 passes on are the
  ones read at lines 107-109: one row of \<open>N_HIGGS\<close> values for every event of the input,
  whether the event is kept or not. What \<open>compute_edge_features\<close> returns does not
  depend on them.
\<close>

theorem C7_parents_not_filtered:
  "(let a = event_filter (read_arrays events) in
      higgs_pt a = get_n_features genHiggsPt events N_HIGGS \<and>
      higgs_eta a = get_n_features genHiggsEta events N_HIGGS \<and>
      higgs_phi a = get_n_features genHiggsPhi events N_HIGGS \<and>
      map length (higgs_pt a) = replicate (length events) N_HIGGS \<and>
      map length (higgs_eta a) = replicate (length events) N_HIGGS \<and>
      map length (higgs_phi a) = replicate (length events) N_HIGGS \<and>
      length (pt a) = length (kept events) \<and>
      compute_edge_features (pt a) (eta a) (phi a) (higgs_idx a)
          (higgs_pt a) (higgs_eta a) (higgs_phi a)
        = compute_edge_features (pt a) (eta a) (phi a) (higgs_idx a) hp he hf)"
proof -
  let ?a = "event_filter (read_arrays events)"
  have p: "higgs_pt ?a = get_n_features genHiggsPt events N_HIGGS"
    "higgs_eta ?a = get_n_features genHiggsEta events N_HIGGS"
    "higgs_phi ?a = get_n_features genHiggsPhi events N_HIGGS"
    by (simp_all add: event_filter_parents read_arrays_def)
  have n: "length (pt ?a) = length (kept events)"
    by (simp add: event_filter_read jet_column_def)
  have u: "compute_edge_features (pt ?a) (eta ?a) (phi ?a) (higgs_idx ?a)
             (higgs_pt ?a) (higgs_eta ?a) (higgs_phi ?a)
           = compute_edge_features (pt ?a) (eta ?a) (phi ?a) (higgs_idx ?a) hp he hf"
    by (rule parents_unused)
  show ?thesis
    unfolding Let_def using u p n by (simp add: get_n_features_lengths)
qed

text \<open>
  C7 as stated fails: of the two events \<open>ev_six\<close> and \<open>ev_few\<close> one is kept, so the jet
  arrays have one row after filtering, and the parent arrays still have two.
\<close>

theorem C7_counterexample:
  "length (pt (event_filter (read_arrays [ev_six, ev_few]))) = 1
   \<and> length (higgs_pt (event_filter (read_arrays [ev_six, ev_few]))) = 2
   \<and> length (higgs_eta (event_filter (read_arrays [ev_six, ev_few]))) = 2
   \<and> length (higgs_phi (event_filter (read_arrays [ev_six, ev_few]))) = 2"
proof -
  have "length (pt (event_filter (read_arrays [ev_six, ev_few]))) = 1"
    by (simp add: event_filter_read jet_column_def kept_six_few)
  then show ?thesis
    unfolding event_filter_parents by (simp add: read_arrays_def get_n_features_def)
qed

theorem C7_parents_not_filtered_witness:
  "map length (higgs_pt (event_filter (read_arrays [ev_six, ev_few]))) = [3, 3]
   \<and> length (pt (event_filter (read_arrays [ev_six, ev_few]))) = 1"
  using C7_parents_not_filtered[of "[ev_six, ev_few]"]
  unfolding Let_def by (simp add: N_HIGGS_def kept_six_few get_n_features_lengths)

section \<open>The range of the match index\<close>

lemma rewritten_idx_range:
  assumes "jetHiggsMatchedIndex ev i = - 1 \<or>
           (1 \<le> jetHiggsMatchedIndex ev i \<and> jetHiggsMatchedIndex ev i \<le> int N_HIGGS)"
  shows "0 \<le> rewritten_idx ev i \<and> rewritten_idx ev i \<le> int N_HIGGS"
  using assms by (auto simp: rewritten_idx_def)

text \<open>
  C8. If every match index of the input is -1 or one of \<open>1..N_HIGGS\<close>, then after the
  event filter every match index of every kept event is one of 0, 1, 2, 3.
\<close>

theorem C8_match_index_range:
  assumes "\<forall>ev \<in> set events. \<forall>i \<in> {1..N_JETS}.
             jetHiggsMatchedIndex ev i = - 1 \<or>
             (1 \<le> jetHiggsMatchedIndex ev i \<and> jetHiggsMatchedIndex ev i \<le> int N_HIGGS)"
  shows "\<forall>row \<in> set (higgs_idx (event_filter (read_arrays events))). \<forall>h \<in> set row.
           0 \<le> h \<and> h \<le> int N_HIGGS \<and> h \<in> {0, 1, 2, 3}"
proof (intro ballI)
  fix row h
  assume row: "row \<in> set (higgs_idx (event_filter (read_arrays events)))" and h: "h \<in> set row"
  from row obtain ev where ev: "ev \<in> set (kept events)" and r: "row = map (rewritten_idx ev) (surviving ev)"
    by (auto simp: event_filter_read jet_column_def)
  from h r obtain i where i: "i \<in> set (surviving ev)" and hi: "h = rewritten_idx ev i"
    by auto
  from ev have "ev \<in> set events" by (simp add: kept_def)
  moreover from i have "i \<in> {1..N_JETS}" by (simp add: set_surviving)
  ultimately have "jetHiggsMatchedIndex ev i = - 1 \<or>
           (1 \<le> jetHiggsMatchedIndex ev i \<and> jetHiggsMatchedIndex ev i \<le> int N_HIGGS)"
    using assms by blast
  from rewritten_idx_range[OF this] show "0 \<le> h \<and> h \<le> int N_HIGGS \<and> h \<in> {0, 1, 2, 3}"
    unfolding hi by (auto simp: N_HIGGS_def)
qed

theorem C8_match_index_range_witness:
  "higgs_idx (read_arrays [ev_six, ev_few])
     = [[1, 1, 2, 2, 3, 3, - 1, - 1, - 1, - 1], [- 1, - 1, - 1, - 1, - 1, - 1, - 1, - 1, - 1, - 1]]
   \<and> higgs_idx (event_filter (read_arrays [ev_six, ev_few])) = [[1, 1, 2, 0, 3, 3]]
   \<and> (\<exists>row \<in> set (higgs_idx (event_filter (read_arrays [ev_six, ev_few]))). \<exists>h \<in> set row.
           0 \<le> h \<and> h \<le> int N_HIGGS \<and> h \<in> {0, 1, 2, 3})"
proof -
  have hyp: "\<forall>ev \<in> set [ev_six, ev_few]. \<forall>i \<in> {1..N_JETS}.
             jetHiggsMatchedIndex ev i = - 1 \<or>
             (1 \<le> jetHiggsMatchedIndex ev i \<and> jetHiggsMatchedIndex ev i \<le> int N_HIGGS)"
    by (auto simp: ev_six_def ev_few_def N_HIGGS_def)
  have val: "higgs_idx (event_filter (read_arrays [ev_six, ev_few])) = [[1, 1, 2, 0, 3, 3]]"
    by (simp add: event_filter_read kept_six_few idx_six)
  have raw: "higgs_idx (read_arrays [ev_six, ev_few])
     = [[1, 1, 2, 2, 3, 3, - 1, - 1, - 1, - 1], [- 1, - 1, - 1, - 1, - 1, - 1, - 1, - 1, - 1, - 1]]"
    unfolding read_arrays_def get_n_features_def slots
    by (simp add: ev_six_def ev_few_def)
  from C8_match_index_range[OF hyp] raw val show ?thesis
    by auto
qed

section \<open>The edge index\<close>

lemma filter_neq_pairs:
  "filter (\<lambda>(i, j). i \<noteq> j) (List.product xs ys)
     = concat (map (\<lambda>i. map (\<lambda>j. (i, j)) (filter (\<lambda>j. j \<noteq> i) ys)) xs)"
  by (induction xs) (auto simp: filter_map comp_def intro!: arg_cong[where f="map _"] filter_cong)

lemma length_filter_eq_upt: "length (filter (\<lambda>j. j = i) [0..<k]) = (if i < k then 1 else 0)"
  by (induction k) auto

lemma length_filter_neq_upt:
  assumes "i < k"
  shows "length (filter (\<lambda>j. j \<noteq> i) [0..<k]) = k - 1"
proof -
  have "length (filter (\<lambda>j. j = i) [0..<k]) + length (filter (\<lambda>j. \<not> j = i) [0..<k]) = length [0..<k]"
    by (rule sum_length_filter_compl)
  with assms show ?thesis
    by (simp add: length_filter_eq_upt)
qed

lemma sum_list_const_on: "(\<And>x. x \<in> set xs \<Longrightarrow> f x = c) \<Longrightarrow> sum_list (map f xs) = length xs * (c::nat)"
  by (induction xs) auto

lemma length_all_pairs:
  "length (concat (map (\<lambda>i. map (\<lambda>j. (i, j)) (filter (\<lambda>j. j \<noteq> i) [0..<k])) [0..<k])) = k * (k - 1)"
proof -
  have "length (concat (map (\<lambda>i. map (\<lambda>j. (i, j)) (filter (\<lambda>j. j \<noteq> i) [0..<k])) [0..<k]))
          = sum_list (map (\<lambda>i. length (filter (\<lambda>j. j \<noteq> i) [0..<k])) [0..<k])"
    by (simp add: length_concat comp_def)
  also have "\<dots> = length [0..<k] * (k - 1)"
    by (rule sum_list_const_on) (simp add: length_filter_neq_upt)
  finally show ?thesis by simp
qed

lemma sorted_wrt_product:
  "sorted_wrt (<) xs \<Longrightarrow> sorted_wrt (<) ys \<Longrightarrow> sorted_wrt row_major (List.product xs ys)"
  by (induction xs) (auto simp: sorted_wrt_append sorted_wrt_map row_major_def)

lemma event_edges_sorted: "sorted_wrt row_major (event_edges ev)"
  unfolding event_edges_def
  by (intro sorted_wrt_filter sorted_wrt_product) (simp_all add: sorted_wrt_upt del: upt_Suc)

lemma set_event_edges:
  "set (event_edges ev) = {(i, j). i < length (surviving ev) \<and> j < length (surviving ev) \<and> i \<noteq> j}"
  by (auto simp: event_edges_def)

lemma event_edges_row_major:
  "event_edges ev =
     concat (map (\<lambda>i. map (\<lambda>j. (i, j)) (filter (\<lambda>j. j \<noteq> i) [0..<length (surviving ev)]))
       [0..<length (surviving ev)])"
  unfolding event_edges_def by (rule filter_neq_pairs)

lemma length_event_edges:
  "length (event_edges ev) = length (surviving ev) * (length (surviving ev) - 1)"
  unfolding event_edges_row_major by (rule length_all_pairs)


lemma edge_index_event_graph:
  "zip (fst (data_edge_index (event_graph ev))) (snd (data_edge_index (event_graph ev))) = event_edges ev"
  by (simp add: event_graph_def zip_map_fst_snd)

text \<open>
  C2. The record of the \<open>n\<close>-th filtered event, which has \<open>k\<close> jets, has \<open>k\<close> nodes and
  \<open>k * (k - 1)\<close> edges in its edge index: the pairs \<open>(i, j)\<close> of positions below \<open>k\<close>
  with \<open>i \<noteq> j\<close>, each once, first by \<open>i\<close> and then by \<open>j\<close>. No edge joins a node to
  itself.
\<close>

theorem C2_edge_index:
  assumes "n < length (pt (event_filter (read_arrays events)))"
  shows "(let a = event_filter (read_arrays events);
              k = length (pt a ! n);
              d = process None None events ! n;
              E = zip (fst (data_edge_index d)) (snd (data_edge_index d)) in
            length (process None None events) = length (pt a) \<and>
            length (data_x d) = k \<and>
            length (fst (data_edge_index d)) = k * (k - 1) \<and>
            length (snd (data_edge_index d)) = k * (k - 1) \<and>
            length E = k * (k - 1) \<and>
            E = concat (map (\<lambda>i. map (\<lambda>j. (i, j)) (filter (\<lambda>j. j \<noteq> i) [0..<k])) [0..<k]) \<and>
            set E = {(i, j). i < k \<and> j < k \<and> i \<noteq> j} \<and>
            sorted_wrt row_major E)"
proof -
  let ?a = "event_filter (read_arrays events)"
  let ?ev = "kept events ! n"
  have len: "length (pt ?a) = length (kept events)"
    by (simp add: event_filter_read jet_column_def)
  with assms have n: "n < length (kept events)" by simp
  then have k: "length (pt ?a ! n) = length (surviving ?ev)"
    by (simp add: event_filter_read jet_column_def)
  have d: "process None None events ! n = event_graph ?ev"
    using n by (simp add: process_eq)
  have l: "length (process None None events) = length (pt ?a)"
    by (simp add: process_eq len)
  have x: "length (data_x (event_graph ?ev)) = length (surviving ?ev)"
    by (simp add: event_graph_def)
  have f: "length (fst (data_edge_index (event_graph ?ev))) = length (event_edges ?ev)"
    "length (snd (data_edge_index (event_graph ?ev))) = length (event_edges ?ev)"
    by (simp_all add: event_graph_def)
  show ?thesis
    unfolding Let_def d k l edge_index_event_graph x f length_event_edges set_event_edges
    using event_edges_sorted[of ?ev] event_edges_row_major[of ?ev]
    by simp
qed

lemma edges_six: "event_edges ev_six =
  [(0,1),(0,2),(0,3),(0,4),(0,5),(1,0),(1,2),(1,3),(1,4),(1,5),(2,0),(2,1),(2,3),(2,4),(2,5),
   (3,0),(3,1),(3,2),(3,4),(3,5),(4,0),(4,1),(4,2),(4,3),(4,5),(5,0),(5,1),(5,2),(5,3),(5,4)]"
  by (simp add: event_edges_def surviving_ev_six upt_rec)

theorem C2_edge_index_witness:
  "0 < length (pt (event_filter (read_arrays [ev_six, ev_few])))
   \<and> length (pt (event_filter (read_arrays [ev_six, ev_few])) ! 0) = 6
   \<and> length (fst (data_edge_index (process None None [ev_six, ev_few] ! 0))) = 30
   \<and> zip (fst (data_edge_index (process None None [ev_six, ev_few] ! 0)))
          (snd (data_edge_index (process None None [ev_six, ev_few] ! 0))) =
  [(0,1),(0,2),(0,3),(0,4),(0,5),(1,0),(1,2),(1,3),(1,4),(1,5),(2,0),(2,1),(2,3),(2,4),(2,5),
   (3,0),(3,1),(3,2),(3,4),(3,5),(4,0),(4,1),(4,2),(4,3),(4,5),(5,0),(5,1),(5,2),(5,3),(5,4)]"
proof -
  let ?a = "event_filter (read_arrays [ev_six, ev_few])"
  have n: "0 < length (pt ?a)"
    by (simp add: event_filter_read jet_column_def kept_six_few)
  have k: "length (pt ?a ! 0) = 6"
    by (simp add: event_filter_read jet_column_def kept_six_few surviving_ev_six)
  have e: "zip (fst (data_edge_index (process None None [ev_six, ev_few] ! 0)))
          (snd (data_edge_index (process None None [ev_six, ev_few] ! 0))) = event_edges ev_six"
    by (simp add: process_eq kept_six_few edge_index_event_graph)
  from C2_edge_index[OF n] have "length (fst (data_edge_index (process None None [ev_six, ev_few] ! 0))) = 30"
    unfolding Let_def k by simp
  with n k e show ?thesis
    by (simp add: edges_six)
qed

section \<open>Edge features and labels against the edge index\<close>

lemma vec_equal_coords: "vec_equal a b \<longleftrightarrow> coords a = coords b"
  by (auto simp: vec_equal_def coords_def)

lemma product_nth:
  "List.product (map f xs) (map g ys) = map (\<lambda>(i, j). (f i, g j)) (List.product xs ys)"
  by (induction xs) (simp_all add: comp_def)

lemma product_positions:
  "List.product js js = map (\<lambda>(i, j). (js ! i, js ! j)) (List.product [0..<length js] [0..<length js])"
  using product_nth[of "\<lambda>i. js ! i" "[0..<length js]" "\<lambda>i. js ! i" "[0..<length js]"]
  by (simp only: map_nth)

lemma pairs_aligned:
  assumes "distinct (map coords js)"
  shows "filter (\<lambda>(a, b). \<not> vec_equal a b) (List.product js js)
           = map (\<lambda>(i, j). (js ! i, js ! j))
               (filter (\<lambda>(i, j). i \<noteq> j) (List.product [0..<length js] [0..<length js]))"
proof -
  have eq: "vec_equal (js ! i) (js ! j) \<longleftrightarrow> i = j" if "i < length js" "j < length js" for i j
    using nth_eq_iff_index_eq[OF assms, of i j] that by (simp add: vec_equal_coords)
  have "filter (\<lambda>(a, b). \<not> vec_equal a b) (List.product js js)
          = map (\<lambda>(i, j). (js ! i, js ! j))
              (filter (\<lambda>(i, j). \<not> vec_equal (js ! i) (js ! j))
                 (List.product [0..<length js] [0..<length js]))"
    by (subst product_positions) (simp add: filter_map comp_def split_def)
  also have "filter (\<lambda>(i, j). \<not> vec_equal (js ! i) (js ! j))
                 (List.product [0..<length js] [0..<length js])
           = filter (\<lambda>(i, j). i \<noteq> j) (List.product [0..<length js] [0..<length js])"
    by (rule filter_cong[OF refl]) (auto simp: eq)
  finally show ?thesis .
qed

lemma event_pairs_aligned:
  assumes "distinct_jets ev"
  shows "event_pairs ev
           = map (\<lambda>(i, j). (event_jets ev ! i, event_jets ev ! j)) (event_edges ev)"
  using pairs_aligned[of "event_jets ev"] assms
  by (simp add: event_pairs_def event_edges_def distinct_jets_def event_jets_def)

text \<open>
  When no two jets of a kept event have the same pt, eta and phi, row \<open>r\<close> of the edge
  features and entry \<open>r\<close> of the labels belong to the pair of jets at the positions of
  edge \<open>r\<close> of the edge index.
\<close>

lemma event_graph_aligned:
  assumes "distinct_jets ev" and "r < length (event_edges ev)"
  shows "length (data_edge_attr (event_graph ev)) = length (event_edges ev)"
    and "length (data_y (event_graph ev)) = length (event_edges ev)"
    and "data_y (event_graph ev) ! r =
           pair_edge_match (event_jets ev ! fst (event_edges ev ! r))
             (event_jets ev ! snd (event_edges ev ! r))"
    and "length (data_edge_attr (event_graph ev) ! r) = 7"
  using assms(2)
  by (simp_all add: event_graph_def event_pairs_aligned[OF assms(1)] split_def)


subsection \<open>Two jets with the same coordinates\<close>

lemma distinct_jets_ev_six: "distinct_jets ev_six"
  unfolding distinct_jets_def event_jets_def surviving_ev_six
  by (simp add: coords_def jet_of_def ev_six_def)

lemma edges_twin: "event_edges ev_twin =
  [(0,1),(0,2),(0,3),(0,4),(0,5),(1,0),(1,2),(1,3),(1,4),(1,5),(2,0),(2,1),(2,3),(2,4),(2,5),
   (3,0),(3,1),(3,2),(3,4),(3,5),(4,0),(4,1),(4,2),(4,3),(4,5),(5,0),(5,1),(5,2),(5,3),(5,4)]"
  by (simp add: event_edges_def surviving_ev_twin upt_rec)

lemma jets_twin: "event_jets ev_twin =
   [\<lparr>j_pt = 30, j_eta = 0, j_phi = 0, j_mass = 0, j_higgs_idx = 1\<rparr>,
    \<lparr>j_pt = 30, j_eta = 0, j_phi = 0, j_mass = 0, j_higgs_idx = 1\<rparr>,
    \<lparr>j_pt = 30, j_eta = 3, j_phi = 0, j_mass = 0, j_higgs_idx = 2\<rparr>,
    \<lparr>j_pt = 30, j_eta = 4, j_phi = 0, j_mass = 0, j_higgs_idx = 2\<rparr>,
    \<lparr>j_pt = 30, j_eta = 5, j_phi = 0, j_mass = 0, j_higgs_idx = 3\<rparr>,
    \<lparr>j_pt = 30, j_eta = 6, j_phi = 0, j_mass = 0, j_higgs_idx = 3\<rparr>]"
  unfolding event_jets_def surviving_ev_twin
  by (simp add: jet_of_def rewritten_idx_def ev_twin_def)

lemma y_twin: "data_y (event_graph ev_twin) =
   [0,0,0,0, 0,0,0,0, 0,0,1,0,0, 0,0,1,0,0, 0,0,0,0,1, 0,0,0,0,1]"
  unfolding event_graph_def event_pairs_def jets_twin
  by (simp add: vec_equal_def pair_edge_match_def)

lemma attr_twin: "length (data_edge_attr (event_graph ev_twin)) = 28"
  unfolding event_graph_def event_pairs_def jets_twin
  by (simp add: vec_equal_def)

lemma x_twin: "length (data_x (event_graph ev_twin)) = 6"
  unfolding event_graph_def surviving_ev_twin by simp

lemma edge_index_twin:
  "data_edge_index (event_graph ev_twin) = (map fst (event_edges ev_twin), map snd (event_edges ev_twin))"
  unfolding event_graph_def by simp

lemma idx_twin: "higgs_idx (event_filter (read_arrays [ev_twin])) = [[1, 1, 2, 2, 3, 3]]"
  unfolding event_filter_read kept_twin jet_column_def
  by (simp add: surviving_ev_twin) (simp add: rewritten_idx_def ev_twin_def)

text \<open>
  C3 fails on the code for the event \<open>ev_twin\<close>, whose jets of slots 1 and 2 have the
  same pt, eta and phi. Line 48 masks the pairs of jets by comparing the two records, so
  it also drops the two pairs of these distinct jets, while line 35 masks by position:
  the record has 6 nodes and 30 edges in its edge index, and 28 rows of edge features
  and 28 labels.
\<close>

theorem C3_twin_jets_rows:
  "map (\<lambda>d. (length (data_x d), length (fst (data_edge_index d)), length (snd (data_edge_index d)),
              length (data_edge_attr d), length (data_y d)))
     (process None None [ev_twin]) = [(6, 30, 30, 28, 28)]"
  unfolding process_eq kept_twin
  by (simp add: attr_twin y_twin x_twin edge_index_twin edges_twin)

text \<open>
  C1 fails on the code for the same event, by the same mask: the labels are those of
  the 28 pairs that line 48 keeps, read against the 30 edges of the edge index. Edge 0
  of the record joins the nodes 0 and 1, whose jets both have match index 1, and its
  label is 0; edge 10 joins the nodes 2 and 0, whose jets have the match indices 2 and
  1, and its label is 1.
\<close>

theorem C1_twin_jets_label:
  "map (\<lambda>d. (fst (data_edge_index d) ! 0, snd (data_edge_index d) ! 0, data_y d ! 0))
     (process None None [ev_twin]) = [(0, 1, 0)]
   \<and> map (\<lambda>row. (row ! 0, row ! 1)) (higgs_idx (event_filter (read_arrays [ev_twin]))) = [(1, 1)]
   \<and> map (\<lambda>d. (fst (data_edge_index d) ! 10, snd (data_edge_index d) ! 10, data_y d ! 10))
     (process None None [ev_twin]) = [(2, 0, 1)]
   \<and> map (\<lambda>row. (row ! 2, row ! 0)) (higgs_idx (event_filter (read_arrays [ev_twin]))) = [(2, 1)]"
  unfolding process_eq kept_twin idx_twin
  by (simp add: y_twin edge_index_twin edges_twin)

section \<open>The label of a pair of jets\<close>

lemma pair_edge_match_sym: "pair_edge_match a b = pair_edge_match b a"
  by (simp add: pair_edge_match_def)

lemma pair_edge_match_one:
  "pair_edge_match a b = 1 \<longleftrightarrow> 0 < j_higgs_idx a \<and> j_higgs_idx a = j_higgs_idx b"
  by (simp add: pair_edge_match_def)

lemma pair_edge_match_zero:
  "pair_edge_match a b = 0 \<longleftrightarrow> \<not> (0 < j_higgs_idx a \<and> j_higgs_idx a = j_higgs_idx b)"
  by (simp add: pair_edge_match_def)

lemma vec_equal_sym: "vec_equal a b \<longleftrightarrow> vec_equal b a"
  by (auto simp: vec_equal_def)

lemma jet_pairs_reverse:
  assumes "ps \<in> set (jet_pairs jets)" and "(a, b) \<in> set ps"
  shows "(b, a) \<in> set ps"
  using assms vec_equal_sym[of a b] by (auto simp: jet_pairs_eq)

lemma jet_pairs_filtered: "jet_pairs (filtered_jets events) = map event_pairs (kept events)"
  by (simp add: filtered_jets_eq jet_pairs_eq event_pairs_def comp_def)

lemma edge_match_process:
  "edge_match (compute_edge_features (pt (event_filter (read_arrays events)))
       (eta (event_filter (read_arrays events))) (phi (event_filter (read_arrays events)))
       (higgs_idx (event_filter (read_arrays events))) hp he hf)
     = map (map (\<lambda>(j0, j1). pair_edge_match j0 j1)) (jet_pairs (filtered_jets events))"
  by (simp add: compute_edge_features_def filtered_jets_def Let_def each_pair_def)

text \<open>
  The label that line 71 gives a pair of jets does not depend on the order of the two
  jets: it is 1 in both directions when the two jets have the same positive match index,
  and 0 in both directions otherwise. In every filtered event, each pair of jets that
  line 48 keeps has its reverse among the kept pairs, with the same label.
\<close>

lemma label_rule_symmetric:
  "(let a = event_filter (read_arrays events);
        ef = compute_edge_features (pt a) (eta a) (phi a) (higgs_idx a)
               (higgs_pt a) (higgs_eta a) (higgs_phi a) in
      edge_match ef = map (map (\<lambda>(a, b). pair_edge_match a b)) (jet_pairs (filtered_jets events)) \<and>
      (\<forall>ps \<in> set (jet_pairs (filtered_jets events)). \<forall>(a, b) \<in> set ps.
          (b, a) \<in> set ps \<and> pair_edge_match b a = pair_edge_match a b))
   \<and> pair_edge_match j0 j1 = pair_edge_match j1 j0
   \<and> (pair_edge_match j0 j1 = 1 \<longleftrightarrow> 0 < j_higgs_idx j0 \<and> j_higgs_idx j0 = j_higgs_idx j1)
   \<and> (pair_edge_match j0 j1 = 0 \<longleftrightarrow> \<not> (0 < j_higgs_idx j0 \<and> j_higgs_idx j0 = j_higgs_idx j1))"
proof -
  have "\<forall>ps \<in> set (jet_pairs (filtered_jets events)). \<forall>(a, b) \<in> set ps.
          (b, a) \<in> set ps \<and> pair_edge_match b a = pair_edge_match a b"
    using jet_pairs_reverse pair_edge_match_sym by fastforce
  then show ?thesis
    unfolding Let_def edge_match_process
    using pair_edge_match_sym[of j0 j1] pair_edge_match_one[of j0 j1] pair_edge_match_zero[of j0 j1]
    by blast
qed

text \<open>
  C9 fails on the code for the event \<open>ev_twin\<close>, by the mask of line 48 again. In the
  record, edge 10 joins the nodes 2 and 0 and has label 1, while edge 1, which joins
  the nodes 0 and 2, has label 0. The jets of the nodes 0 and 1 both have match index
  1, and the edges 0 and 5 between them, one in each direction, both have label 0.
\<close>

theorem C9_twin_jets_directions:
  "map (\<lambda>d. ((fst (data_edge_index d) ! 10, snd (data_edge_index d) ! 10), data_y d ! 10,
              (fst (data_edge_index d) ! 1, snd (data_edge_index d) ! 1), data_y d ! 1))
     (process None None [ev_twin]) = [((2, 0), 1, (0, 2), 0)]
   \<and> map (\<lambda>d. ((fst (data_edge_index d) ! 0, snd (data_edge_index d) ! 0), data_y d ! 0,
              (fst (data_edge_index d) ! 5, snd (data_edge_index d) ! 5), data_y d ! 5))
     (process None None [ev_twin]) = [((0, 1), 0, (1, 0), 0)]
   \<and> higgs_idx (event_filter (read_arrays [ev_twin])) = [[1, 1, 2, 2, 3, 3]]"
  unfolding process_eq kept_twin idx_twin
  by (simp add: y_twin edge_index_twin edges_twin)

section \<open>The pt of the filtered jets\<close>

text \<open>
  Every jet of a filtered event has pt above the cut, and so has the smaller pt of any
  two of them (line 58).
\<close>

lemma filtered_jets_pt:
  assumes "row \<in> set (filtered_jets events)" and "j \<in> set row"
  shows "MIN_JET_PT < j_pt j"
  using assms by (auto simp: filtered_jets_eq event_jets_def jet_of_def set_surviving)

lemma filtered_jets_min_pt:
  assumes "row \<in> set (filtered_jets events)" and "j0 \<in> set row" and "j1 \<in> set row"
  shows "MIN_JET_PT < pair_min_pt j0 j1"
  using filtered_jets_pt[OF assms(1,2)] filtered_jets_pt[OF assms(1,3)]
  by (simp add: pair_min_pt_def)

end
